theory Spec2Isabelle
  imports Main
begin

section \<open>Credential manager (src/credentials.ts)\<close>

text \<open>
  The credential file as the interface \<open>ClaudeCodeCredentials\<close> declares it. The nested
  object \<open>claudeAiOauth\<close> is the record \<open>oauth\<close>. Timestamps are JavaScript numbers holding
  epoch milliseconds; they are integers here. The field \<open>refreshToken\<close> of the source is
  \<open>refreshTokenStr\<close>, since the function of that name keeps the name.
\<close>

record oauth =
  accessToken :: string
  refreshTokenStr :: string
  expiresAt :: int
  scopes :: "string list"
  subscriptionType :: "string option"
  rateLimitTier :: "string option"

record ClaudeCodeCredentials =
  claudeAiOauth :: oauth
  organizationUuid :: string

definition TOKEN_REFRESH_BUFFER_MS :: int where
  "TOKEN_REFRESH_BUFFER_MS = 5 * 60 * 1000"

definition CACHE_TTL_MS :: int where
  "CACHE_TTL_MS = 30000"

text \<open>
  The backing store at \<open>CREDENTIALS_PATH\<close>: the file is missing (\<open>existsSync\<close> is false),
  or it is there and \<open>readFileSync\<close> or \<open>JSON.parse\<close> throws (with the text of what was
  thrown), or it parses to a value that the source casts to \<open>ClaudeCodeCredentials\<close>. The
  cast is taken at its word: the content is an object of that interface.
\<close>

datatype disk_file = Missing | Unreadable string | Content ClaudeCodeCredentials

text \<open>What the module does to the outside, in the order it does it.\<close>

datatype io = ExistsSync | ReadFileSync | WriteFileSync | ConsoleWarn | ConsoleLog

text \<open>
  Each \<open>throw new Error(...)\<close> of the source is one constructor, carrying the values its
  message template interpolates; a rejected \<open>fetch\<close> or \<open>response.json()\<close> passes through
  \<open>refreshToken\<close> uncaught.
\<close>

datatype error =
    CredentialsNotFound
  | CredentialsReadFailed string
  | RefreshFailed nat string
  | FetchRejected string
  | JsonRejected string

text \<open>
  The module-level variables \<open>cachedCredentials\<close> and \<open>lastReadTime\<close>, together with the
  file they mirror and the trace of effects.
\<close>

record cred_state =
  cachedCredentials :: "ClaudeCodeCredentials option"
  lastReadTime :: int
  disk :: disk_file
  io_log :: "io list"

definition initial_state :: "disk_file \<Rightarrow> cred_state" where
  "initial_state d = \<lparr>cachedCredentials = None, lastReadTime = 0, disk = d, io_log = []\<rparr>"

definition do_io :: "io \<Rightarrow> cred_state \<Rightarrow> cred_state" where
  "do_io e s = s\<lparr>io_log := io_log s @ [e]\<rparr>"

text \<open>\<open>readCredentials\<close>, with \<open>Date.now()\<close> as the argument \<open>now\<close>.\<close>

definition readCredentials ::
  "int \<Rightarrow> cred_state \<Rightarrow> (error + ClaudeCodeCredentials) \<times> cred_state" where
  "readCredentials now s =
     (let from_disk =
        (let s1 = do_io ExistsSync s in
         case disk s1 of
           Missing \<Rightarrow> (Inl CredentialsNotFound, s1)
         | Unreadable e \<Rightarrow> (Inl (CredentialsReadFailed e), do_io ReadFileSync s1)
         | Content c \<Rightarrow>
             (Inr c, (do_io ReadFileSync s1)\<lparr>cachedCredentials := Some c, lastReadTime := now\<rparr>))
      in case cachedCredentials s of
           None \<Rightarrow> from_disk
         | Some c \<Rightarrow> if now - lastReadTime s < CACHE_TTL_MS then (Inr c, s) else from_disk)"

definition isTokenExpired :: "int \<Rightarrow> ClaudeCodeCredentials \<Rightarrow> bool" where
  "isTokenExpired now credentials =
     (now \<ge> expiresAt (claudeAiOauth credentials) - TOKEN_REFRESH_BUFFER_MS)"

text \<open>
  The token endpoint. The response carries its status, its body as text and, for
  \<open>response.json()\<close>, the body as the object the source reads: \<open>refresh_token\<close> may be
  absent, and \<open>body_json\<close> is \<open>Inl\<close> of what was thrown when \<open>response.json()\<close> rejects.
\<close>

record token_response =
  access_token :: string
  refresh_token :: "string option"
  expires_in :: int

record http_response =
  status :: nat
  body_text :: string
  body_json :: "string + token_response"

datatype fetch_outcome = Rejected string | Resolved http_response

text \<open>\<open>response.ok\<close>: the status is in the range 200 to 299.\<close>

definition ok :: "http_response \<Rightarrow> bool" where
  "ok r = (200 \<le> status r \<and> status r \<le> 299)"

text \<open>\<open>data.refresh_token || refreshToken\<close>: an absent or empty string is falsy.\<close>

definition or_else :: "string option \<Rightarrow> string \<Rightarrow> string" where
  "or_else a b = (case a of None \<Rightarrow> b | Some x \<Rightarrow> if x = [] then b else x)"

text \<open>
  \<open>refreshToken\<close>. The endpoint is a function of the refresh token posted to it;
  \<open>now\<close> is the \<open>Date.now()\<close> of line 101, and \<open>write_ok\<close> says whether \<open>writeFileSync\<close>
  returns (the file then holds the new record) or throws (the file is left as it was).
\<close>

definition refreshToken ::
  "(string \<Rightarrow> fetch_outcome) \<Rightarrow> int \<Rightarrow> bool \<Rightarrow> ClaudeCodeCredentials \<Rightarrow> cred_state
     \<Rightarrow> (error + ClaudeCodeCredentials) \<times> cred_state" where
  "refreshToken fetch now write_ok credentials s =
     (let refreshToken0 = refreshTokenStr (claudeAiOauth credentials) in
      case fetch refreshToken0 of
        Rejected e \<Rightarrow> (Inl (FetchRejected e), s)
      | Resolved response \<Rightarrow>
          if \<not> ok response
          then (Inl (RefreshFailed (status response) (body_text response)), s)
          else
            (case body_json response of
               Inl e \<Rightarrow> (Inl (JsonRejected e), s)
             | Inr data \<Rightarrow>
                 (let newCredentials = credentials\<lparr>claudeAiOauth := (claudeAiOauth credentials)
                        \<lparr>accessToken := access_token data,
                         refreshTokenStr := or_else (refresh_token data) refreshToken0,
                         expiresAt := now + expires_in data * 1000\<rparr>\<rparr>;
                      s1 = do_io WriteFileSync s
                  in if write_ok
                     then (Inr newCredentials,
                           s1\<lparr>disk := Content newCredentials,
                              cachedCredentials := Some newCredentials\<rparr>)
                     else (Inr newCredentials, do_io ConsoleWarn s1))))"

text \<open>
  \<open>getValidAccessToken\<close>: the three \<open>Date.now()\<close> readings are \<open>t_read\<close>, \<open>t_check\<close> and
  \<open>t_refresh\<close>.
\<close>

definition getValidAccessToken ::
  "(string \<Rightarrow> fetch_outcome) \<Rightarrow> int \<Rightarrow> int \<Rightarrow> int \<Rightarrow> bool \<Rightarrow> cred_state
     \<Rightarrow> (error + string) \<times> cred_state" where
  "getValidAccessToken fetch t_read t_check t_refresh write_ok s =
     (case readCredentials t_read s of
        (Inl e, s1) \<Rightarrow> (Inl e, s1)
      | (Inr credentials, s1) \<Rightarrow>
          if isTokenExpired t_check credentials
          then (case refreshToken fetch t_refresh write_ok credentials (do_io ConsoleLog s1) of
                  (Inl e, s2) \<Rightarrow> (Inl e, s2)
                | (Inr credentials', s2) \<Rightarrow> (Inr (accessToken (claudeAiOauth credentials')), s2))
          else (Inr (accessToken (claudeAiOauth credentials)), s1))"

section \<open>Stream decoder (src/provider.ts, createStreamTransformer)\<close>

subsection \<open>JavaScript values and the operators the decoder applies to them\<close>

text \<open>
  What \<open>JSON.parse\<close> returns, and \<open>undefined\<close>, which a property read can give. Numbers are
  of a type \<open>'n\<close> that the runtime supplies. An object lists its own properties, each name
  once (for a repeated name \<open>JSON.parse\<close> keeps the last value).
\<close>

datatype 'n jsval =
    JUndefined
  | JNull
  | JBool bool
  | JNum 'n
  | JStr string
  | JArr "'n jsval list"
  | JObj "(string \<times> 'n jsval) list"

text \<open>
  The runtime: \<open>JSON.parse\<close> (\<open>None\<close> when it throws), and for numbers the conversion to a
  string and to a boolean.
\<close>

record 'n runtime =
  JSON_parse :: "string \<Rightarrow> 'n jsval option"
  Number_toString :: "'n \<Rightarrow> string"
  Number_toBoolean :: "'n \<Rightarrow> bool"

definition nullish :: "'n jsval \<Rightarrow> bool" where
  "nullish v = (case v of JUndefined \<Rightarrow> True | JNull \<Rightarrow> True | _ \<Rightarrow> False)"

text \<open>
  \<open>v.k\<close> for a value that is neither \<open>null\<close> nor \<open>undefined\<close>. The names the decoder reads
  (\<open>type\<close>, \<open>message\<close>, \<open>usage\<close>, \<open>input_tokens\<close>, \<open>content_block\<close>, \<open>id\<close>, \<open>name\<close>, \<open>delta\<close>,
  \<open>text\<close>, \<open>partial_json\<close>, \<open>stop_reason\<close>, \<open>output_tokens\<close>) are on no prototype of a
  parsed value, so only an object that has the property gives more than \<open>undefined\<close>.
\<close>

fun get_prop :: "'n jsval \<Rightarrow> string \<Rightarrow> 'n jsval" where
  "get_prop (JObj kvs) k = (case map_of kvs k of Some x \<Rightarrow> x | None \<Rightarrow> JUndefined)"
| "get_prop v k = JUndefined"

text \<open>\<open>v.k\<close> throws a TypeError on \<open>null\<close> and \<open>undefined\<close>; \<open>v?.k\<close> gives \<open>undefined\<close> there.\<close>

definition dot :: "'n jsval \<Rightarrow> string \<Rightarrow> 'n jsval option" where
  "dot v k = (if nullish v then None else Some (get_prop v k))"

definition opt_dot :: "'n jsval \<Rightarrow> string \<Rightarrow> 'n jsval" where
  "opt_dot v k = (if nullish v then JUndefined else get_prop v k)"

text \<open>\<open>a ?? b\<close>.\<close>

definition coalesce :: "'n jsval \<Rightarrow> 'n jsval \<Rightarrow> 'n jsval" where
  "coalesce a b = (if nullish a then b else a)"

text \<open>The test of \<open>if (v)\<close>.\<close>

fun truthy :: "'n runtime \<Rightarrow> 'n jsval \<Rightarrow> bool" where
  "truthy rt JUndefined = False"
| "truthy rt JNull = False"
| "truthy rt (JBool b) = b"
| "truthy rt (JNum n) = Number_toBoolean rt n"
| "truthy rt (JStr s) = (s \<noteq> [])"
| "truthy rt (JArr xs) = True"
| "truthy rt (JObj kvs) = True"

text \<open>
  The string that \<open>s += v\<close> appends to a string \<open>s\<close>. An array is joined with commas, \<open>null\<close>
  and \<open>undefined\<close> elements giving nothing; an object is \<open>[object Object]\<close>, unless it has a
  property \<open>toString\<close> of its own: that is no function, and the conversion throws a
  TypeError (\<open>None\<close>).
\<close>

fun join_comma :: "string option list \<Rightarrow> string option" where
  "join_comma [] = Some []"
| "join_comma [x] = x"
| "join_comma (x # y # ys) =
     (case x of None \<Rightarrow> None
      | Some a \<Rightarrow> (case join_comma (y # ys) of None \<Rightarrow> None | Some b \<Rightarrow> Some (a @ '','' @ b)))"

fun to_string :: "'n runtime \<Rightarrow> 'n jsval \<Rightarrow> string option" where
  "to_string rt JUndefined = Some ''undefined''"
| "to_string rt JNull = Some ''null''"
| "to_string rt (JBool b) = Some (if b then ''true'' else ''false'')"
| "to_string rt (JNum n) = Some (Number_toString rt n)"
| "to_string rt (JStr s) = Some s"
| "to_string rt (JArr xs) =
     join_comma (map (\<lambda>x. if nullish x then Some [] else to_string rt x) xs)"
| "to_string rt (JObj kvs) =
     (if ''toString'' \<in> fst ` set kvs then None else Some ''[object Object]'')"

subsection \<open>The decoder\<close>

text \<open>The stream parts the decoder enqueues (\<open>LanguageModelV1StreamPart\<close>).\<close>

datatype finish_reason = Stop | ToolCalls | Length | Other

datatype 'n stream_part =
    TextDelta "'n jsval"
  | ToolCall "'n jsval" "'n jsval" string
  | Finish finish_reason "'n jsval" "'n jsval"

text \<open>The variables of the closure.\<close>

record 'n decoder_state =
  buffer :: string
  inputTokens :: "'n jsval"
  outputTokens :: "'n jsval"
  currentToolCallId :: "'n jsval"
  currentToolCallName :: "'n jsval"
  currentToolCallArgs :: string

definition initial_decoder :: "'n::zero decoder_state" where
  "initial_decoder =
     \<lparr>buffer = [], inputTokens = JNum 0, outputTokens = JNum 0,
      currentToolCallId = JStr [], currentToolCallName = JStr [],
      currentToolCallArgs = []\<rparr>"

text \<open>
  The body of the \<open>try\<close> after \<open>JSON.parse\<close> (lines 299 to 349): the new state and the parts
  enqueued, or \<open>None\<close> when a TypeError is thrown (which happens before any assignment).
\<close>

definition handle_event ::
  "'n::zero runtime \<Rightarrow> 'n jsval \<Rightarrow> 'n decoder_state
     \<Rightarrow> ('n decoder_state \<times> 'n stream_part list) option" where
  "handle_event rt event st =
     (case dot event ''type'' of
        None \<Rightarrow> None
      | Some ty \<Rightarrow>
          if ty = JStr ''message_start'' then
            Some (st\<lparr>inputTokens :=
                    coalesce (opt_dot (opt_dot (opt_dot event ''message'') ''usage'')
                                ''input_tokens'') (JNum 0)\<rparr>, [])
          else if ty = JStr ''content_block_start'' then
            (if opt_dot (get_prop event ''content_block'') ''type'' = JStr ''tool_use''
             then Some (st\<lparr>currentToolCallId := get_prop (get_prop event ''content_block'') ''id'',
                           currentToolCallName := get_prop (get_prop event ''content_block'') ''name'',
                           currentToolCallArgs := []\<rparr>, [])
             else Some (st, []))
          else if ty = JStr ''content_block_delta'' then
            (if opt_dot (get_prop event ''delta'') ''type'' = JStr ''text_delta''
             then Some (st, [TextDelta (get_prop (get_prop event ''delta'') ''text'')])
             else if opt_dot (get_prop event ''delta'') ''type'' = JStr ''input_json_delta''
             then (case to_string rt (get_prop (get_prop event ''delta'') ''partial_json'') of
                     None \<Rightarrow> None
                   | Some fragment \<Rightarrow>
                       Some (st\<lparr>currentToolCallArgs := currentToolCallArgs st @ fragment\<rparr>, []))
             else Some (st, []))
          else if ty = JStr ''content_block_stop'' then
            (if truthy rt (currentToolCallId st)
             then Some (st\<lparr>currentToolCallId := JStr [], currentToolCallName := JStr [],
                           currentToolCallArgs := []\<rparr>,
                        [ToolCall (currentToolCallId st) (currentToolCallName st)
                           (currentToolCallArgs st)])
             else Some (st, []))
          else if ty = JStr ''message_delta'' then
            (let outputTokens' =
                   coalesce (opt_dot (opt_dot event ''usage'') ''output_tokens'') (outputTokens st);
                 stop_reason = opt_dot (opt_dot event ''delta'') ''stop_reason'';
                 finishReason =
                   (if stop_reason = JStr ''end_turn'' then Stop
                    else if stop_reason = JStr ''tool_use'' then ToolCalls
                    else if stop_reason = JStr ''max_tokens'' then Length
                    else Other)
             in Some (st\<lparr>outputTokens := outputTokens'\<rparr>,
                      [Finish finishReason (inputTokens st) outputTokens']))
          else Some (st, []))"

text \<open>\<open>line.startsWith(p)\<close>, and one turn of the \<open>for\<close> loop over the lines.\<close>

definition startsWith :: "string \<Rightarrow> string \<Rightarrow> bool" where
  "startsWith line p = (take (length p) line = p)"

definition process_line ::
  "'n::zero runtime \<Rightarrow> string \<Rightarrow> 'n decoder_state \<Rightarrow> 'n decoder_state \<times> 'n stream_part list" where
  "process_line rt line st =
     (if \<not> startsWith line ''data: '' then (st, [])
      else
        (let data = drop 6 line in
         if data = ''[DONE]'' then (st, [])
         else
           (case JSON_parse rt data of
              None \<Rightarrow> (st, [])
            | Some event \<Rightarrow>
                (case handle_event rt event st of None \<Rightarrow> (st, []) | Some r \<Rightarrow> r))))"

fun process_lines ::
  "'n::zero runtime \<Rightarrow> string list \<Rightarrow> 'n decoder_state
     \<Rightarrow> 'n decoder_state \<times> 'n stream_part list" where
  "process_lines rt [] st = (st, [])"
| "process_lines rt (line # lines) st =
     (case process_line rt line st of
        (st1, out1) \<Rightarrow>
          (case process_lines rt lines st1 of (st2, out2) \<Rightarrow> (st2, out1 @ out2)))"

text \<open>\<open>s.split('\n')\<close>: the pieces between the newlines, one more than there are newlines.\<close>

fun split_newline :: "string \<Rightarrow> string list" where
  "split_newline [] = [[]]"
| "split_newline (c # cs) =
     (if c = CHR 0x0A then [] # split_newline cs
      else (case split_newline cs of [] \<Rightarrow> [[c]] | l # ls \<Rightarrow> (c # l) # ls))"

text \<open>
  One turn of the \<open>while\<close> loop for a chunk whose decoded text is \<open>chunk\<close>:
  \<open>lines.pop() ?? ''\<close> takes the last piece as the new buffer.
\<close>

definition process_chunk ::
  "'n::zero runtime \<Rightarrow> string \<Rightarrow> 'n decoder_state \<Rightarrow> 'n decoder_state \<times> 'n stream_part list" where
  "process_chunk rt chunk st =
     (let lines = split_newline (buffer st @ chunk)
      in process_lines rt (butlast lines)
           (st\<lparr>buffer := (if lines = [] then [] else last lines)\<rparr>))"

text \<open>
  The \<open>while\<close> loop over \<open>reader.read()\<close>: the body is the list of the texts that
  \<open>decoder.decode(value, {stream: true})\<close> gives for its chunks, and \<open>done\<close> is its end.
  For a stream of ASCII bytes these texts are the chunks themselves; the newline is a
  single byte in UTF-8 and part of no longer sequence, so lines are the same in bytes and
  in text.
\<close>

fun read_loop ::
  "'n::zero runtime \<Rightarrow> string list \<Rightarrow> 'n decoder_state
     \<Rightarrow> 'n decoder_state \<times> 'n stream_part list" where
  "read_loop rt [] st = (st, [])"
| "read_loop rt (chunk # rest) st =
     (case process_chunk rt chunk st of
        (st1, out1) \<Rightarrow> (case read_loop rt rest st1 of (st2, out2) \<Rightarrow> (st2, out1 @ out2)))"

text \<open>The parts enqueued before \<open>controller.close()\<close>.\<close>

definition createStreamTransformer :: "'n::zero runtime \<Rightarrow> string list \<Rightarrow> 'n stream_part list" where
  "createStreamTransformer rt body = snd (read_loop rt body initial_decoder)"

subsection \<open>Lines and frames of a stream\<close>

text \<open>
  The lines of a text that a newline ends: all pieces of \<open>split\<close> but the last one, which
  the decoder keeps in \<open>buffer\<close>.
\<close>

definition complete_lines :: "string \<Rightarrow> string list" where
  "complete_lines s = butlast (split_newline s)"

text \<open>
  The event that a line carries (the tests of lines 292 to 297), the \<open>type\<close> the decoder
  reads from it, and the shapes of the events that its branches look for.
\<close>

fun is_finish :: "'n stream_part \<Rightarrow> bool" where
  "is_finish (Finish r p c) = True"
| "is_finish part = False"

definition frame_of :: "'n runtime \<Rightarrow> string \<Rightarrow> 'n jsval option" where
  "frame_of rt line =
     (if startsWith line ''data: '' \<and> drop 6 line \<noteq> ''[DONE]''
      then JSON_parse rt (drop 6 line) else None)"

definition frame_type :: "'n runtime \<Rightarrow> string \<Rightarrow> 'n jsval option" where
  "frame_type rt line = (case frame_of rt line of None \<Rightarrow> None | Some event \<Rightarrow> dot event ''type'')"

definition silent_type :: "'n jsval option \<Rightarrow> bool" where
  "silent_type t =
     (t \<noteq> Some (JStr ''content_block_delta'') \<and> t \<noteq> Some (JStr ''content_block_stop'')
      \<and> t \<noteq> Some (JStr ''message_delta''))"

definition tool_use_start :: "'n jsval \<Rightarrow> 'n jsval \<Rightarrow> 'n jsval \<Rightarrow> bool" where
  "tool_use_start event tool_id tool_name =
     (dot event ''type'' = Some (JStr ''content_block_start'')
      \<and> opt_dot (get_prop event ''content_block'') ''type'' = JStr ''tool_use''
      \<and> get_prop (get_prop event ''content_block'') ''id'' = tool_id
      \<and> get_prop (get_prop event ''content_block'') ''name'' = tool_name)"

definition input_json_delta :: "'n jsval \<Rightarrow> string \<Rightarrow> bool" where
  "input_json_delta event fragment =
     (dot event ''type'' = Some (JStr ''content_block_delta'')
      \<and> opt_dot (get_prop event ''delta'') ''type'' = JStr ''input_json_delta''
      \<and> get_prop (get_prop event ''delta'') ''partial_json'' = JStr fragment)"

definition text_delta :: "'n jsval \<Rightarrow> 'n jsval \<Rightarrow> bool" where
  "text_delta event text =
     (dot event ''type'' = Some (JStr ''content_block_delta'')
      \<and> opt_dot (get_prop event ''delta'') ''type'' = JStr ''text_delta''
      \<and> get_prop (get_prop event ''delta'') ''text'' = text)"

definition content_block_stop :: "'n jsval \<Rightarrow> bool" where
  "content_block_stop event = (dot event ''type'' = Some (JStr ''content_block_stop''))"

definition message_start :: "'n jsval \<Rightarrow> 'n \<Rightarrow> bool" where
  "message_start event tokens =
     (dot event ''type'' = Some (JStr ''message_start'')
      \<and> opt_dot (opt_dot (opt_dot event ''message'') ''usage'') ''input_tokens'' = JNum tokens)"

definition message_delta :: "'n jsval \<Rightarrow> string \<Rightarrow> 'n \<Rightarrow> bool" where
  "message_delta event reason tokens =
     (dot event ''type'' = Some (JStr ''message_delta'')
      \<and> opt_dot (opt_dot event ''delta'') ''stop_reason'' = JStr reason
      \<and> opt_dot (opt_dot event ''usage'') ''output_tokens'' = JNum tokens)"

subsection \<open>A sample runtime\<close>

text \<open>
  A runtime over the integers, for running the decoder on sample streams. Its parser follows
  the JSON grammar for the literals, strings with the two-character escapes, integers, arrays
  and objects; it rejects what the samples never contain (a number with a fraction or an
  exponent, a \<open>\u\<close> escape). The first argument of the three mutually recursive functions
  bounds the number of nested calls.
\<close>

definition is_ws :: "char \<Rightarrow> bool" where
  "is_ws c = (c = CHR '' '' \<or> c = CHR 0x09 \<or> c = CHR 0x0A \<or> c = CHR 0x0D)"

definition skip_ws :: "string \<Rightarrow> string" where
  "skip_ws s = dropWhile is_ws s"

definition digit_of :: "char \<Rightarrow> nat option" where
  "digit_of c = map_of (zip ''0123456789'' [0, 1, 2, 3, 4, 5, 6, 7, 8, 9]) c"

fun parse_digits :: "nat \<Rightarrow> string \<Rightarrow> nat \<times> string" where
  "parse_digits acc [] = (acc, [])"
| "parse_digits acc (c # cs) =
     (case digit_of c of None \<Rightarrow> (acc, c # cs) | Some d \<Rightarrow> parse_digits (10 * acc + d) cs)"

definition parse_nat :: "string \<Rightarrow> (nat \<times> string) option" where
  "parse_nat s =
     (case s of
        [] \<Rightarrow> None
      | c # cs \<Rightarrow>
          (case digit_of c of
             None \<Rightarrow> None
           | Some d \<Rightarrow> if d = 0 then Some (0, cs) else Some (parse_digits d cs)))"

definition parse_number :: "string \<Rightarrow> (int \<times> string) option" where
  "parse_number s =
     (case (case s of
              [] \<Rightarrow> None
            | c # cs \<Rightarrow>
                if c = CHR ''-''
                then (case parse_nat cs of None \<Rightarrow> None | Some (n, r) \<Rightarrow> Some (- int n, r))
                else (case parse_nat s of None \<Rightarrow> None | Some (n, r) \<Rightarrow> Some (int n, r))) of
        None \<Rightarrow> None
      | Some (i, r) \<Rightarrow>
          (case r of
             [] \<Rightarrow> Some (i, r)
           | c # cs \<Rightarrow> if c = CHR ''.'' \<or> c = CHR ''e'' \<or> c = CHR ''E'' then None else Some (i, r)))"

definition unescape :: "char \<Rightarrow> char option" where
  "unescape e =
     map_of [(CHR 0x22, CHR 0x22), (CHR 0x5C, CHR 0x5C), (CHR ''/'', CHR ''/''),
             (CHR ''b'', CHR 0x08), (CHR ''f'', CHR 0x0C), (CHR ''n'', CHR 0x0A),
             (CHR ''r'', CHR 0x0D), (CHR ''t'', CHR 0x09)] e"

fun parse_string_body :: "string \<Rightarrow> (string \<times> string) option" where
  "parse_string_body [] = None"
| "parse_string_body (c # cs) =
     (if c = CHR 0x22 then Some ([], cs)
      else if c = CHR 0x5C then
        (case cs of
           [] \<Rightarrow> None
         | e # cs' \<Rightarrow>
             (case unescape e of
                None \<Rightarrow> None
              | Some x \<Rightarrow>
                  (case parse_string_body cs' of
                     None \<Rightarrow> None
                   | Some (s, r) \<Rightarrow> Some (x # s, r))))
      else if (of_char c :: nat) < 32 then None
      else (case parse_string_body cs of None \<Rightarrow> None | Some (s, r) \<Rightarrow> Some (c # s, r)))"

fun parse_value :: "nat \<Rightarrow> string \<Rightarrow> (int jsval \<times> string) option"
  and parse_elements :: "nat \<Rightarrow> string \<Rightarrow> (int jsval list \<times> string) option"
  and parse_members :: "nat \<Rightarrow> string \<Rightarrow> ((string \<times> int jsval) list \<times> string) option"
where
  "parse_value 0 s = None"
| "parse_value (Suc n) s =
     (case skip_ws s of
        [] \<Rightarrow> None
      | c # cs \<Rightarrow>
          if c = CHR 0x22 then
            (case parse_string_body cs of None \<Rightarrow> None | Some (str, r) \<Rightarrow> Some (JStr str, r))
          else if c = CHR ''['' then
            (case skip_ws cs of
               [] \<Rightarrow> None
             | d # ds \<Rightarrow>
                 if d = CHR '']'' then Some (JArr [], ds)
                 else (case parse_elements n (d # ds) of
                         None \<Rightarrow> None
                       | Some (xs, r) \<Rightarrow> Some (JArr xs, r)))
          else if c = CHR ''{'' then
            (case skip_ws cs of
               [] \<Rightarrow> None
             | d # ds \<Rightarrow>
                 if d = CHR ''}'' then Some (JObj [], ds)
                 else (case parse_members n (d # ds) of
                         None \<Rightarrow> None
                       | Some (kvs, r) \<Rightarrow> Some (JObj kvs, r)))
          else if startsWith (c # cs) ''true'' then Some (JBool True, drop 4 (c # cs))
          else if startsWith (c # cs) ''false'' then Some (JBool False, drop 5 (c # cs))
          else if startsWith (c # cs) ''null'' then Some (JNull, drop 4 (c # cs))
          else (case parse_number (c # cs) of None \<Rightarrow> None | Some (i, r) \<Rightarrow> Some (JNum i, r)))"
| "parse_elements 0 s = None"
| "parse_elements (Suc n) s =
     (case parse_value n s of
        None \<Rightarrow> None
      | Some (v, r) \<Rightarrow>
          (case skip_ws r of
             [] \<Rightarrow> None
           | c # cs \<Rightarrow>
               if c = CHR '']'' then Some ([v], cs)
               else if c = CHR '','' then
                 (case parse_elements n cs of None \<Rightarrow> None | Some (vs, r') \<Rightarrow> Some (v # vs, r'))
               else None))"
| "parse_members 0 s = None"
| "parse_members (Suc n) s =
     (case skip_ws s of
        [] \<Rightarrow> None
      | c # cs \<Rightarrow>
          if c \<noteq> CHR 0x22 then None
          else
            (case parse_string_body cs of
               None \<Rightarrow> None
             | Some (k, r) \<Rightarrow>
                 (case skip_ws r of
                    [] \<Rightarrow> None
                  | c1 # cs1 \<Rightarrow>
                      if c1 \<noteq> CHR '':'' then None
                      else
                        (case parse_value n cs1 of
                           None \<Rightarrow> None
                         | Some (v, r1) \<Rightarrow>
                             (case skip_ws r1 of
                                [] \<Rightarrow> None
                              | c2 # cs2 \<Rightarrow>
                                  if c2 = CHR ''}'' then Some ([(k, v)], cs2)
                                  else if c2 = CHR '','' then
                                    (case parse_members n cs2 of
                                       None \<Rightarrow> None
                                     | Some (kvs, r2) \<Rightarrow>
                                         Some (if k \<in> fst ` set kvs then kvs else (k, v) # kvs, r2))
                                  else None)))))"

definition json_parse :: "string \<Rightarrow> int jsval option" where
  "json_parse s =
     (case parse_value (2 * length s + 2) s of
        None \<Rightarrow> None
      | Some (v, r) \<Rightarrow> if skip_ws r = [] then Some v else None)"

fun show_nat :: "nat \<Rightarrow> string" where
  "show_nat n =
     (if n < 10 then [char_of (48 + n)] else show_nat (n div 10) @ [char_of (48 + n mod 10)])"

definition show_int :: "int \<Rightarrow> string" where
  "show_int i = (if i < 0 then CHR ''-'' # show_nat (nat (- i)) else show_nat (nat i))"

definition sample_runtime :: "int runtime" where
  "sample_runtime =
     \<lparr>JSON_parse = json_parse, Number_toString = show_int, Number_toBoolean = (\<lambda>i. i \<noteq> 0)\<rparr>"

text \<open>Sample lines of a stream, as the messages API sends them.\<close>

definition line_tool_start :: string where
  "line_tool_start =
     ''data: {\"type\":\"content_block_start\",\"index\":1,\"content_block\":{\"type\":\"tool_use\",\"id\":\"t1\",\"name\":\"weather\",\"input\":{}}}''"

definition line_json_1 :: string where
  "line_json_1 =
     ''data: {\"type\":\"content_block_delta\",\"index\":1,\"delta\":{\"type\":\"input_json_delta\",\"partial_json\":\"{''
     @ [CHR 0x5C] @ ''\"loc\"}}''"

definition line_json_2 :: string where
  "line_json_2 =
     ''data: {\"type\":\"content_block_delta\",\"index\":1,\"delta\":{\"type\":\"input_json_delta\",\"partial_json\":\"''
     @ [CHR 0x5C] @ ''\":'' @ [CHR 0x5C] @ ''\"NYC'' @ [CHR 0x5C] @ ''\"}\"}}''"

definition line_block_stop :: string where
  "line_block_stop = ''data: {\"type\":\"content_block_stop\",\"index\":1}''"

definition line_message_start :: string where
  "line_message_start =
     ''data: {\"type\":\"message_start\",\"message\":{\"role\":\"assistant\",\"usage\":{\"input_tokens\":10,\"output_tokens\":1}}}''"

definition line_text_He :: string where
  "line_text_He =
     ''data: {\"type\":\"content_block_delta\",\"index\":0,\"delta\":{\"type\":\"text_delta\",\"text\":\"He\"}}''"

definition line_text_llo :: string where
  "line_text_llo =
     ''data: {\"type\":\"content_block_delta\",\"index\":0,\"delta\":{\"type\":\"text_delta\",\"text\":\"llo\"}}''"

definition line_message_delta :: string where
  "line_message_delta =
     ''data: {\"type\":\"message_delta\",\"delta\":{\"stop_reason\":\"end_turn\",\"stop_sequence\":null},\"usage\":{\"output_tokens\":3}}''"

definition line_message_stop :: string where
  "line_message_stop = ''data: {\"type\":\"message_stop\"}''"

definition nl :: string where
  "nl = [CHR 0x0A]"

section \<open>Sample data for the credential manager\<close>

text \<open>
  A record that lapses at 1000000, a state that has it cached, and three token endpoints:
  one that answers 401, and two that accept the refresh token \<open>rt-old\<close>, the first
  rotating it with a lifetime of 60 seconds, the second sending an empty \<open>refresh_token\<close>
  with a lifetime of 8 hours.
\<close>

definition sample_credentials :: ClaudeCodeCredentials where
  "sample_credentials =
     \<lparr>claudeAiOauth =
        \<lparr>accessToken = ''at-old'', refreshTokenStr = ''rt-old'', expiresAt = 1000000,
         scopes = [''user:inference'', ''user:profile''], subscriptionType = Some ''max'',
         rateLimitTier = None\<rparr>,
      organizationUuid = ''org-1''\<rparr>"

definition sample_state :: cred_state where
  "sample_state =
     \<lparr>cachedCredentials = Some sample_credentials, lastReadTime = 790000,
      disk = Content sample_credentials, io_log = [ExistsSync, ReadFileSync]\<rparr>"

definition response_401 :: http_response where
  "response_401 =
     \<lparr>status = 401, body_text = ''invalid_grant'', body_json = Inl ''SyntaxError''\<rparr>"

definition data_rotating :: token_response where
  "data_rotating = \<lparr>access_token = ''at-new'', refresh_token = Some ''rt-new'', expires_in = 60\<rparr>"

definition data_keeping :: token_response where
  "data_keeping = \<lparr>access_token = ''at-new'', refresh_token = Some [], expires_in = 28800\<rparr>"

definition response_rotating :: http_response where
  "response_rotating =
     \<lparr>status = 200,
      body_text = ''{\"access_token\":\"at-new\",\"refresh_token\":\"rt-new\",\"expires_in\":60}'',
      body_json = Inr data_rotating\<rparr>"

definition response_keeping :: http_response where
  "response_keeping =
     \<lparr>status = 200,
      body_text = ''{\"access_token\":\"at-new\",\"refresh_token\":\"\",\"expires_in\":28800}'',
      body_json = Inr data_keeping\<rparr>"

definition endpoint_401 :: "string \<Rightarrow> fetch_outcome" where
  "endpoint_401 posted = Resolved response_401"

definition endpoint_rotating :: "string \<Rightarrow> fetch_outcome" where
  "endpoint_rotating posted =
     (if posted = ''rt-old'' then Resolved response_rotating else Resolved response_401)"

definition endpoint_keeping :: "string \<Rightarrow> fetch_outcome" where
  "endpoint_keeping posted =
     (if posted = ''rt-old'' then Resolved response_keeping else Resolved response_401)"

text \<open>The record that the rotating endpoint leads to when the refresh happens at 800000.\<close>

definition rotated_credentials :: ClaudeCodeCredentials where
  "rotated_credentials =
     sample_credentials\<lparr>claudeAiOauth := (claudeAiOauth sample_credentials)
       \<lparr>accessToken := ''at-new'', refreshTokenStr := ''rt-new'', expiresAt := 860000\<rparr>\<rparr>"

text \<open>The number of \<open>readFileSync\<close> calls so far.\<close>

definition count_reads :: "cred_state \<Rightarrow> nat" where
  "count_reads s = length (filter (\<lambda>e. e = ReadFileSync) (io_log s))"

section \<open>Properties of the credential manager\<close>

text \<open>
  C6. When the token endpoint answers with a status outside 200..299, \<open>refreshToken\<close> fails
  with the error that carries that status and the response body, and the module state
  (the cached record, the read time, the file, the effects) is exactly what it was.
\<close>

theorem C6_refresh_non2xx_fails_and_keeps_cache:
  assumes "fetch (refreshTokenStr (claudeAiOauth credentials)) = Resolved response"
    and "\<not> ok response"
  shows "refreshToken fetch now write_ok credentials s =
           (Inl (RefreshFailed (status response) (body_text response)), s)"
  using assms by (simp add: refreshToken_def)

theorem C6_witness:
  "endpoint_401 (refreshTokenStr (claudeAiOauth sample_credentials)) = Resolved response_401
   \<and> \<not> ok response_401
   \<and> refreshToken endpoint_401 800000 True sample_credentials sample_state
       = (Inl (RefreshFailed 401 ''invalid_grant''), sample_state)"
  using C6_refresh_non2xx_fails_and_keeps_cache
    [of endpoint_401 sample_credentials response_401 800000 True sample_state]
  by (simp add: endpoint_401_def response_401_def ok_def)

text \<open>
  A successful refresh, spelled out once for the claims below: on a 2xx response whose body
  parses, the result is the input record with the three token fields replaced; the cache
  and the file follow only when the write returns.
\<close>

lemma refreshToken_success:
  assumes "fetch (refreshTokenStr (claudeAiOauth credentials)) = Resolved response"
    and "ok response" and "body_json response = Inr data"
  shows "refreshToken fetch now write_ok credentials s =
    (Inr (credentials\<lparr>claudeAiOauth := (claudeAiOauth credentials)
            \<lparr>accessToken := access_token data,
             refreshTokenStr := or_else (refresh_token data)
                                  (refreshTokenStr (claudeAiOauth credentials)),
             expiresAt := now + expires_in data * 1000\<rparr>\<rparr>),
     if write_ok
     then (do_io WriteFileSync s)
            \<lparr>disk := Content (credentials\<lparr>claudeAiOauth := (claudeAiOauth credentials)
               \<lparr>accessToken := access_token data,
                refreshTokenStr := or_else (refresh_token data)
                                     (refreshTokenStr (claudeAiOauth credentials)),
                expiresAt := now + expires_in data * 1000\<rparr>\<rparr>),
             cachedCredentials := Some (credentials\<lparr>claudeAiOauth := (claudeAiOauth credentials)
               \<lparr>accessToken := access_token data,
                refreshTokenStr := or_else (refresh_token data)
                                     (refreshTokenStr (claudeAiOauth credentials)),
                expiresAt := now + expires_in data * 1000\<rparr>\<rparr>)\<rparr>
     else do_io ConsoleWarn (do_io WriteFileSync s))"
  using assms by (simp add: refreshToken_def Let_def)

text \<open>
  C1, as the specification has it, fails: with the sample record cached and a write that
  throws, the call returns the new record and the cache still holds the old one.
\<close>

theorem C1_counterexample:
  "fst (refreshToken endpoint_rotating 800000 False sample_credentials sample_state)
     = Inr rotated_credentials
   \<and> cachedCredentials
         (snd (refreshToken endpoint_rotating 800000 False sample_credentials sample_state))
       = Some sample_credentials
   \<and> Some sample_credentials \<noteq> Some rotated_credentials"
  by (simp add: refreshToken_def endpoint_rotating_def response_rotating_def data_rotating_def
      ok_def or_else_def Let_def do_io_def sample_state_def sample_credentials_def
      rotated_credentials_def)

text \<open>
  C1, amended. After a 2xx response, when the write to the backing store throws,
  \<open>refreshToken\<close> still returns the new record and only warns; the cached record, the read
  time and the file are what they were before the call. The cache takes the new record
  when the write returns.
\<close>

theorem C1_persist_failure_returns_new_keeps_cache:
  assumes "fetch (refreshTokenStr (claudeAiOauth credentials)) = Resolved response"
    and "ok response" and "body_json response = Inr data"
    and "refreshToken fetch now False credentials s = (res, s')"
    and "refreshToken fetch now True credentials s = (res_w, s_w)"
  shows "res = Inr (credentials\<lparr>claudeAiOauth := (claudeAiOauth credentials)
            \<lparr>accessToken := access_token data,
             refreshTokenStr := or_else (refresh_token data)
                                  (refreshTokenStr (claudeAiOauth credentials)),
             expiresAt := now + expires_in data * 1000\<rparr>\<rparr>)
     \<and> cachedCredentials s' = cachedCredentials s
     \<and> lastReadTime s' = lastReadTime s
     \<and> disk s' = disk s
     \<and> io_log s' = io_log s @ [WriteFileSync, ConsoleWarn]
     \<and> res_w = res
     \<and> cachedCredentials s_w = (case res of Inr r \<Rightarrow> Some r | Inl e \<Rightarrow> None)"
  using assms(4,5)
    refreshToken_success [of fetch credentials response data now False s, OF assms(1,2,3)]
    refreshToken_success [of fetch credentials response data now True s, OF assms(1,2,3)]
  by (auto simp: do_io_def)

theorem C1_witness:
  "endpoint_rotating (refreshTokenStr (claudeAiOauth sample_credentials))
     = Resolved response_rotating
   \<and> ok response_rotating
   \<and> body_json response_rotating = Inr data_rotating
   \<and> fst (refreshToken endpoint_rotating 800000 False sample_credentials sample_state)
       = Inr rotated_credentials
   \<and> cachedCredentials
         (snd (refreshToken endpoint_rotating 800000 False sample_credentials sample_state))
       = Some sample_credentials
   \<and> io_log (snd (refreshToken endpoint_rotating 800000 False sample_credentials sample_state))
       = [ExistsSync, ReadFileSync, WriteFileSync, ConsoleWarn]
   \<and> cachedCredentials
         (snd (refreshToken endpoint_rotating 800000 True sample_credentials sample_state))
       = Some rotated_credentials"
proof -
  have h1: "endpoint_rotating (refreshTokenStr (claudeAiOauth sample_credentials))
      = Resolved response_rotating"
    by (simp add: endpoint_rotating_def sample_credentials_def)
  have h2: "ok response_rotating" by (simp add: ok_def response_rotating_def)
  have h3: "body_json response_rotating = Inr data_rotating"
    by (simp add: response_rotating_def)
  have h4: "refreshToken endpoint_rotating 800000 False sample_credentials sample_state
      = (fst (refreshToken endpoint_rotating 800000 False sample_credentials sample_state),
         snd (refreshToken endpoint_rotating 800000 False sample_credentials sample_state))"
    by simp
  have h5: "refreshToken endpoint_rotating 800000 True sample_credentials sample_state
      = (fst (refreshToken endpoint_rotating 800000 True sample_credentials sample_state),
         snd (refreshToken endpoint_rotating 800000 True sample_credentials sample_state))"
    by simp
  note r = C1_persist_failure_returns_new_keeps_cache [OF h1 h2 h3 h4 h5]
  show ?thesis
    using h1 h2 h3 r
    by (simp add: or_else_def sample_state_def data_rotating_def rotated_credentials_def
        sample_credentials_def)
qed

text \<open>
  C3, as the specification has it, fails in its last part: a record that lapses at
  1000000 is refreshed at 800000 (inside the five-minute buffer, so \<open>isTokenExpired\<close> holds)
  with a server lifetime of 60 seconds, and the new \<open>expiresAt\<close> is 860000.
\<close>

theorem C3_counterexample:
  "isTokenExpired 800000 sample_credentials
   \<and> fst (refreshToken endpoint_rotating 800000 True sample_credentials sample_state)
       = Inr rotated_credentials
   \<and> \<not> expiresAt (claudeAiOauth rotated_credentials)
         > expiresAt (claudeAiOauth sample_credentials)"
  by (simp add: refreshToken_def endpoint_rotating_def response_rotating_def data_rotating_def
      ok_def or_else_def Let_def do_io_def sample_state_def sample_credentials_def
      rotated_credentials_def isTokenExpired_def TOKEN_REFRESH_BUFFER_MS_def)

text \<open>
  C3, amended. After a 2xx response \<open>refreshToken\<close> returns a record with the scopes, the
  organization identifier, the subscription type and the rate-limit tier of its input, and
  with \<open>expiresAt\<close> equal to the time of the refresh plus the server's lifetime in
  milliseconds; that is later than the input's \<open>expiresAt\<close> exactly when the input lapses
  before that instant.
\<close>

theorem C3_refresh_preserves_identity_sets_expiry:
  assumes "fetch (refreshTokenStr (claudeAiOauth credentials)) = Resolved response"
    and "ok response" and "body_json response = Inr data"
    and "refreshToken fetch now write_ok credentials s = (res, s')"
  shows "\<exists>r. res = Inr r
           \<and> scopes (claudeAiOauth r) = scopes (claudeAiOauth credentials)
           \<and> organizationUuid r = organizationUuid credentials
           \<and> subscriptionType (claudeAiOauth r) = subscriptionType (claudeAiOauth credentials)
           \<and> rateLimitTier (claudeAiOauth r) = rateLimitTier (claudeAiOauth credentials)
           \<and> expiresAt (claudeAiOauth r) = now + expires_in data * 1000
           \<and> (expiresAt (claudeAiOauth r) > expiresAt (claudeAiOauth credentials)
                \<longleftrightarrow> expiresAt (claudeAiOauth credentials) < now + expires_in data * 1000)"
  using assms(4)
    refreshToken_success [of fetch credentials response data now write_ok s, OF assms(1,2,3)]
  by auto

theorem C3_witness:
  "endpoint_keeping (refreshTokenStr (claudeAiOauth sample_credentials))
     = Resolved response_keeping
   \<and> ok response_keeping
   \<and> body_json response_keeping = Inr data_keeping
   \<and> (\<exists>r. fst (refreshToken endpoint_keeping 800000 True sample_credentials sample_state) = Inr r
         \<and> scopes (claudeAiOauth r) = [''user:inference'', ''user:profile'']
         \<and> organizationUuid r = ''org-1''
         \<and> expiresAt (claudeAiOauth r) = 29600000
         \<and> expiresAt (claudeAiOauth r) > expiresAt (claudeAiOauth sample_credentials))"
proof -
  have h1: "endpoint_keeping (refreshTokenStr (claudeAiOauth sample_credentials))
      = Resolved response_keeping"
    by (simp add: endpoint_keeping_def sample_credentials_def)
  have h2: "ok response_keeping" by (simp add: ok_def response_keeping_def)
  have h3: "body_json response_keeping = Inr data_keeping" by (simp add: response_keeping_def)
  have h4: "refreshToken endpoint_keeping 800000 True sample_credentials sample_state
      = (fst (refreshToken endpoint_keeping 800000 True sample_credentials sample_state),
         snd (refreshToken endpoint_keeping 800000 True sample_credentials sample_state))"
    by simp
  from C3_refresh_preserves_identity_sets_expiry [OF h1 h2 h3 h4]
  obtain r where r: "fst (refreshToken endpoint_keeping 800000 True sample_credentials sample_state) = Inr r"
    "scopes (claudeAiOauth r) = scopes (claudeAiOauth sample_credentials)"
    "organizationUuid r = organizationUuid sample_credentials"
    "expiresAt (claudeAiOauth r) = 800000 + expires_in data_keeping * 1000"
    by blast
  have "expiresAt (claudeAiOauth r) = 29600000" using r(4) by (simp add: data_keeping_def)
  moreover have "expiresAt (claudeAiOauth sample_credentials) = 1000000"
    by (simp add: sample_credentials_def)
  ultimately show ?thesis
    using h1 h2 h3 r(1,2,3) by (simp add: sample_credentials_def)
qed

text \<open>
  C9. After a 2xx response whose \<open>refresh_token\<close> is absent or the empty string, the returned
  record keeps the refresh token of the input; a non-empty \<open>refresh_token\<close> replaces it.
\<close>

theorem C9_refresh_token_kept_unless_supplied:
  assumes "fetch (refreshTokenStr (claudeAiOauth credentials)) = Resolved response"
    and "ok response" and "body_json response = Inr data"
    and "refreshToken fetch now write_ok credentials s = (res, s')"
  shows "\<exists>r. res = Inr r
           \<and> (refresh_token data = None \<or> refresh_token data = Some []
                \<longrightarrow> refreshTokenStr (claudeAiOauth r) = refreshTokenStr (claudeAiOauth credentials))
           \<and> (\<forall>x. refresh_token data = Some x \<and> x \<noteq> []
                \<longrightarrow> refreshTokenStr (claudeAiOauth r) = x)"
  using assms(4)
    refreshToken_success [of fetch credentials response data now write_ok s, OF assms(1,2,3)]
  by (auto simp: or_else_def)

theorem C9_witness:
  "refresh_token data_keeping = Some []
   \<and> (\<exists>r. fst (refreshToken endpoint_keeping 800000 True sample_credentials sample_state) = Inr r
        \<and> refreshTokenStr (claudeAiOauth r) = ''rt-old'')
   \<and> refresh_token data_rotating = Some ''rt-new''
   \<and> (\<exists>r. fst (refreshToken endpoint_rotating 800000 True sample_credentials sample_state) = Inr r
        \<and> refreshTokenStr (claudeAiOauth r) = ''rt-new'')"
proof -
  have k1: "endpoint_keeping (refreshTokenStr (claudeAiOauth sample_credentials))
      = Resolved response_keeping"
    by (simp add: endpoint_keeping_def sample_credentials_def)
  have k2: "ok response_keeping" by (simp add: ok_def response_keeping_def)
  have k3: "body_json response_keeping = Inr data_keeping" by (simp add: response_keeping_def)
  have k4: "refreshToken endpoint_keeping 800000 True sample_credentials sample_state
      = (fst (refreshToken endpoint_keeping 800000 True sample_credentials sample_state),
         snd (refreshToken endpoint_keeping 800000 True sample_credentials sample_state))"
    by simp
  have k5: "refresh_token data_keeping = Some []" by (simp add: data_keeping_def)
  have r1: "endpoint_rotating (refreshTokenStr (claudeAiOauth sample_credentials))
      = Resolved response_rotating"
    by (simp add: endpoint_rotating_def sample_credentials_def)
  have r2: "ok response_rotating" by (simp add: ok_def response_rotating_def)
  have r3: "body_json response_rotating = Inr data_rotating" by (simp add: response_rotating_def)
  have r4: "refreshToken endpoint_rotating 800000 True sample_credentials sample_state
      = (fst (refreshToken endpoint_rotating 800000 True sample_credentials sample_state),
         snd (refreshToken endpoint_rotating 800000 True sample_credentials sample_state))"
    by simp
  have r5: "refresh_token data_rotating = Some ''rt-new''" by (simp add: data_rotating_def)
  have a: "\<exists>r. fst (refreshToken endpoint_keeping 800000 True sample_credentials sample_state) = Inr r
        \<and> refreshTokenStr (claudeAiOauth r) = ''rt-old''"
    using C9_refresh_token_kept_unless_supplied [OF k1 k2 k3 k4] k5
    by (auto simp: sample_credentials_def)
  have b: "\<exists>r. fst (refreshToken endpoint_rotating 800000 True sample_credentials sample_state) = Inr r
        \<and> refreshTokenStr (claudeAiOauth r) = ''rt-new''"
    using C9_refresh_token_kept_unless_supplied [OF r1 r2 r3 r4] r5
    by auto
  from a b k5 r5 show ?thesis by blast
qed

text \<open>
  What one call of \<open>readCredentials\<close> does, by the two cases of its first test.
\<close>

lemma readCredentials_hit:
  assumes "cachedCredentials s = Some c" and "now - lastReadTime s < CACHE_TTL_MS"
  shows "readCredentials now s = (Inr c, s)"
  using assms by (simp add: readCredentials_def)

lemma readCredentials_miss:
  assumes "cachedCredentials s = None \<or> now - lastReadTime s \<ge> CACHE_TTL_MS"
  shows "readCredentials now s =
     (case disk s of
        Missing \<Rightarrow> (Inl CredentialsNotFound, s\<lparr>io_log := io_log s @ [ExistsSync]\<rparr>)
      | Unreadable e \<Rightarrow>
          (Inl (CredentialsReadFailed e), s\<lparr>io_log := io_log s @ [ExistsSync, ReadFileSync]\<rparr>)
      | Content c \<Rightarrow>
          (Inr c, s\<lparr>io_log := io_log s @ [ExistsSync, ReadFileSync],
                     cachedCredentials := Some c, lastReadTime := now\<rparr>))"
  using assms
  by (auto simp: readCredentials_def do_io_def Let_def split: option.splits disk_file.splits)

lemma readCredentials_returns_cached:
  assumes "readCredentials now s = (Inr r, s')"
  shows "cachedCredentials s' = Some r"
  using assms
  by (auto simp: readCredentials_def do_io_def Let_def
      split: option.splits disk_file.splits if_splits)

lemma readCredentials_reads_once:
  "count_reads (snd (readCredentials now s)) \<le> count_reads s + 1"
  by (auto simp: readCredentials_def do_io_def Let_def count_reads_def
      split: option.splits disk_file.splits)

text \<open>
  C8. Take a call of \<open>readCredentials\<close> at \<open>t1\<close> that returns a record, and a second call at
  \<open>t2\<close> less than 30 seconds after the read time the first call left, with nothing but the
  file changed in between (to any \<open>d\<close>). The second call returns the same record and
  leaves the state as it found it, so it does no disk access at all, and the two calls
  together read the file at most once. A call that finds no cached record, or comes 30
  seconds or more after the last read, goes to the file: it fails when the file is missing
  or unreadable, and otherwise returns the record of the file and caches it with the time
  of this call.
\<close>

theorem C8_read_cache_window:
  "(readCredentials t1 s0 = (Inr r1, s1) \<and> t2 - lastReadTime s1 < CACHE_TTL_MS
      \<longrightarrow> readCredentials t2 (s1\<lparr>disk := d\<rparr>) = (Inr r1, s1\<lparr>disk := d\<rparr>)
          \<and> io_log (snd (readCredentials t2 (s1\<lparr>disk := d\<rparr>))) = io_log s1
          \<and> count_reads (snd (readCredentials t2 (s1\<lparr>disk := d\<rparr>))) \<le> count_reads s0 + 1)
   \<and> (cachedCredentials s = None \<or> t - lastReadTime s \<ge> CACHE_TTL_MS
      \<longrightarrow> readCredentials t s =
          (case disk s of
             Missing \<Rightarrow> (Inl CredentialsNotFound, s\<lparr>io_log := io_log s @ [ExistsSync]\<rparr>)
           | Unreadable e \<Rightarrow>
               (Inl (CredentialsReadFailed e),
                s\<lparr>io_log := io_log s @ [ExistsSync, ReadFileSync]\<rparr>)
           | Content c \<Rightarrow>
               (Inr c, s\<lparr>io_log := io_log s @ [ExistsSync, ReadFileSync],
                          cachedCredentials := Some c, lastReadTime := t\<rparr>)))"
proof (intro conjI impI)
  assume a: "readCredentials t1 s0 = (Inr r1, s1) \<and> t2 - lastReadTime s1 < CACHE_TTL_MS"
  then have "cachedCredentials s1 = Some r1"
    using readCredentials_returns_cached [of t1 s0 r1 s1] by blast
  then have c: "cachedCredentials (s1\<lparr>disk := d\<rparr>) = Some r1"
    by simp
  from a have w: "t2 - lastReadTime (s1\<lparr>disk := d\<rparr>) < CACHE_TTL_MS" by simp
  show second: "readCredentials t2 (s1\<lparr>disk := d\<rparr>) = (Inr r1, s1\<lparr>disk := d\<rparr>)"
    by (rule readCredentials_hit [OF c w])
  show "io_log (snd (readCredentials t2 (s1\<lparr>disk := d\<rparr>))) = io_log s1"
    by (simp add: second)
  have "count_reads (snd (readCredentials t1 s0)) \<le> count_reads s0 + 1"
    by (rule readCredentials_reads_once)
  with a show "count_reads (snd (readCredentials t2 (s1\<lparr>disk := d\<rparr>))) \<le> count_reads s0 + 1"
    by (simp add: second count_reads_def)
next
  assume "cachedCredentials s = None \<or> t - lastReadTime s \<ge> CACHE_TTL_MS"
  then show "readCredentials t s =
          (case disk s of
             Missing \<Rightarrow> (Inl CredentialsNotFound, s\<lparr>io_log := io_log s @ [ExistsSync]\<rparr>)
           | Unreadable e \<Rightarrow>
               (Inl (CredentialsReadFailed e),
                s\<lparr>io_log := io_log s @ [ExistsSync, ReadFileSync]\<rparr>)
           | Content c \<Rightarrow>
               (Inr c, s\<lparr>io_log := io_log s @ [ExistsSync, ReadFileSync],
                          cachedCredentials := Some c, lastReadTime := t\<rparr>))"
    by (rule readCredentials_miss)
qed

text \<open>
  The claim at concrete inputs: a first call at time 1000 on the empty cache reads the
  file once; a call at 30999 is served from the cache although the file has gone; a call at
  31000 is outside the window and reads the file again.
\<close>

theorem C8_witness:
  "readCredentials 1000 (initial_state (Content sample_credentials))
     = (Inr sample_credentials,
        \<lparr>cachedCredentials = Some sample_credentials, lastReadTime = 1000,
         disk = Content sample_credentials, io_log = [ExistsSync, ReadFileSync]\<rparr>)
   \<and> readCredentials 30999
        \<lparr>cachedCredentials = Some sample_credentials, lastReadTime = 1000,
         disk = Missing, io_log = [ExistsSync, ReadFileSync]\<rparr>
     = (Inr sample_credentials,
        \<lparr>cachedCredentials = Some sample_credentials, lastReadTime = 1000,
         disk = Missing, io_log = [ExistsSync, ReadFileSync]\<rparr>)
   \<and> readCredentials 31000
        \<lparr>cachedCredentials = Some sample_credentials, lastReadTime = 1000,
         disk = Content sample_credentials, io_log = [ExistsSync, ReadFileSync]\<rparr>
     = (Inr sample_credentials,
        \<lparr>cachedCredentials = Some sample_credentials, lastReadTime = 31000,
         disk = Content sample_credentials,
         io_log = [ExistsSync, ReadFileSync, ExistsSync, ReadFileSync]\<rparr>)"
proof -
  let ?s1 = "\<lparr>cachedCredentials = Some sample_credentials, lastReadTime = 1000,
         disk = Content sample_credentials, io_log = [ExistsSync, ReadFileSync]\<rparr>"
  have first: "readCredentials 1000 (initial_state (Content sample_credentials))
      = (Inr sample_credentials, ?s1)"
    using C8_read_cache_window
      [of 0 "initial_state Missing" sample_credentials "initial_state Missing" 0 Missing
          "initial_state (Content sample_credentials)" 1000, THEN conjunct2]
    by (simp add: initial_state_def)
  have window: "30999 - lastReadTime ?s1 < CACHE_TTL_MS"
    by (simp add: CACHE_TTL_MS_def)
  have second: "readCredentials 30999 (?s1\<lparr>disk := Missing\<rparr>)
      = (Inr sample_credentials, ?s1\<lparr>disk := Missing\<rparr>)"
    using C8_read_cache_window
      [of 1000 "initial_state (Content sample_credentials)" sample_credentials ?s1 30999 Missing
          "initial_state Missing" 0, THEN conjunct1]
      first window
    by blast
  have third: "readCredentials 31000 ?s1
      = (Inr sample_credentials,
         ?s1\<lparr>io_log := io_log ?s1 @ [ExistsSync, ReadFileSync],
              cachedCredentials := Some sample_credentials, lastReadTime := 31000\<rparr>)"
    using C8_read_cache_window
      [of 0 "initial_state Missing" sample_credentials "initial_state Missing" 0 Missing
          ?s1 31000, THEN conjunct2]
    by (simp add: CACHE_TTL_MS_def)
  from first second third show ?thesis by simp
qed

section \<open>Properties of the stream decoder\<close>

subsection \<open>The decoder sees the lines of the whole stream\<close>

text \<open>
  However the stream is cut into chunks, the loop hands to \<open>process_line\<close>, in order, the
  lines of the whole text that a newline ends, and is left with the piece after the last
  newline in \<open>buffer\<close>.
\<close>

lemma split_newline_nonempty: "split_newline s \<noteq> []"
  by (induction s) (auto split: list.splits)

lemma split_newline_last_no_newline: "CHR 0x0A \<notin> set (last (split_newline s))"
  by (induction s) (auto split: list.splits simp: split_newline_nonempty)

lemma split_newline_no_newline: "CHR 0x0A \<notin> set s \<Longrightarrow> split_newline s = [s]"
  by (induction s) auto

lemma split_newline_append:
  "split_newline (a @ b) =
     butlast (split_newline a) @ split_newline (last (split_newline a) @ b)"
proof (induction a)
  case Nil
  show ?case by simp
next
  case (Cons c a)
  show ?case
  proof (cases "c = CHR 0x0A")
    case True
    then show ?thesis using Cons by (simp add: split_newline_nonempty)
  next
    case False
    obtain l ls where s: "split_newline a = l # ls"
      using split_newline_nonempty [of a] by (cases "split_newline a") auto
    show ?thesis
    proof (cases "ls = []")
      case True
      then show ?thesis using False s Cons by simp
    next
      case ne: False
      then show ?thesis using False s Cons by simp
    qed
  qed
qed

lemma split_newline_line:
  "CHR 0x0A \<notin> set l \<Longrightarrow> split_newline (l @ CHR 0x0A # b) = l # split_newline b"
  by (induction l) auto

lemma split_newline_single_empty: "split_newline a = [[]] \<Longrightarrow> a = []"
  using split_newline_nonempty [of "tl a"]
  by (cases a) (auto split: if_splits list.splits)

lemma split_newline_ends:
  "a = [] \<or> last a = CHR 0x0A \<Longrightarrow> last (split_newline a) = []"
proof (induction a)
  case Nil
  show ?case by simp
next
  case (Cons c a)
  show ?case
  proof (cases "a = []")
    case True
    then show ?thesis using Cons.prems by simp
  next
    case False
    then have "last (split_newline a) = []" using Cons by simp
    then show ?thesis
      using split_newline_nonempty [of a] split_newline_single_empty [of a] False
      by (cases "split_newline a") (auto split: if_splits)
  qed
qed

lemma complete_lines_fragment:
  assumes "pre = [] \<or> last pre = CHR 0x0A" and "CHR 0x0A \<notin> set frag"
  shows "split_newline (pre @ frag) = complete_lines pre @ [frag]"
  using split_newline_append [of pre frag] assms
  by (simp add: split_newline_ends split_newline_no_newline complete_lines_def)

lemma process_lines_append:
  "process_lines rt (xs @ ys) st =
     (case process_lines rt xs st of
        (st1, out1) \<Rightarrow> (case process_lines rt ys st1 of (st2, out2) \<Rightarrow> (st2, out1 @ out2)))"
  by (induction xs arbitrary: st) (auto split: prod.splits)

lemma process_lines_Cons_snd:
  "snd (process_lines rt (l # ls) st) =
     snd (process_line rt l st) @ snd (process_lines rt ls (fst (process_line rt l st)))"
  by (simp add: case_prod_beta)

lemma process_lines_append_snd:
  "snd (process_lines rt (xs @ ys) st) =
     snd (process_lines rt xs st) @ snd (process_lines rt ys (fst (process_lines rt xs st)))"
  by (simp add: process_lines_append case_prod_beta)

lemma handle_event_buffer:
  "handle_event rt ev (st\<lparr>buffer := b\<rparr>) =
     (case handle_event rt ev st of None \<Rightarrow> None | Some (s, out) \<Rightarrow> Some (s\<lparr>buffer := b\<rparr>, out))"
  by (simp add: handle_event_def Let_def split: option.splits)

lemma process_line_buffer:
  "process_line rt l (st\<lparr>buffer := b\<rparr>) =
     (case process_line rt l st of (s, out) \<Rightarrow> (s\<lparr>buffer := b\<rparr>, out))"
  by (simp add: process_line_def handle_event_buffer Let_def split: option.splits prod.splits)

lemma process_lines_buffer:
  "process_lines rt ls (st\<lparr>buffer := b\<rparr>) =
     (case process_lines rt ls st of (s, out) \<Rightarrow> (s\<lparr>buffer := b\<rparr>, out))"
proof (induction ls arbitrary: st)
  case Nil
  show ?case by simp
next
  case (Cons l ls)
  show ?case
    by (simp add: process_line_buffer Cons split: prod.splits)
qed

lemma read_loop_lines:
  "CHR 0x0A \<notin> set (buffer st) \<Longrightarrow>
   read_loop rt body st =
     (case process_lines rt (complete_lines (buffer st @ concat body)) st of
        (s, out) \<Rightarrow> (s\<lparr>buffer := last (split_newline (buffer st @ concat body))\<rparr>, out))"
proof (induction body arbitrary: st)
  case Nil
  then show ?case by (simp add: complete_lines_def split_newline_no_newline)
next
  case (Cons chunk rest)
  let ?lines = "split_newline (buffer st @ chunk)"
  obtain s1 out1 where p1: "process_lines rt (butlast ?lines) st = (s1, out1)"
    by (cases "process_lines rt (butlast ?lines) st")
  have chunk: "process_chunk rt chunk st = (s1\<lparr>buffer := last ?lines\<rparr>, out1)"
    by (simp add: process_chunk_def Let_def split_newline_nonempty process_lines_buffer p1)
  have nb: "CHR 0x0A \<notin> set (buffer (s1\<lparr>buffer := last ?lines\<rparr>))"
    by (simp add: split_newline_last_no_newline)
  have sp: "split_newline (buffer st @ chunk @ concat rest) =
      butlast ?lines @ split_newline (last ?lines @ concat rest)"
    using split_newline_append [of "buffer st @ chunk" "concat rest"] by simp
  show ?case
    using Cons.IH [OF nb] chunk sp p1
    by (simp add: complete_lines_def process_lines_append process_lines_buffer
        butlast_append split_newline_nonempty split: prod.splits)
qed

lemma createStreamTransformer_lines:
  "createStreamTransformer rt body =
     snd (process_lines rt (complete_lines (concat body)) initial_decoder)"
  using read_loop_lines [of initial_decoder rt body]
  by (simp add: createStreamTransformer_def initial_decoder_def split: prod.splits)

subsection \<open>What one line does\<close>

lemma process_line_frame:
  "process_line rt line st =
     (case frame_of rt line of
        None \<Rightarrow> (st, [])
      | Some event \<Rightarrow> (case handle_event rt event st of None \<Rightarrow> (st, []) | Some r \<Rightarrow> r))"
  by (simp add: process_line_def frame_of_def Let_def)

lemma process_line_unparsed:
  "JSON_parse rt payload = None \<Longrightarrow> process_line rt (''data: '' @ payload) st = (st, [])"
  by (simp add: process_line_def startsWith_def Let_def)

lemma handle_event_finish_count:
  "handle_event rt event st = Some (st', out) \<Longrightarrow>
   length (filter is_finish out) = (if dot event ''type'' = Some (JStr ''message_delta'') then 1 else 0)"
  by (auto simp: handle_event_def Let_def split: option.splits if_splits)

lemma handle_event_message_delta:
  "dot event ''type'' = Some (JStr ''message_delta'') \<Longrightarrow>
   \<exists>st' r p c. handle_event rt event st = Some (st', [Finish r p c])"
  by (simp add: handle_event_def Let_def)

lemma handle_event_silent:
  "handle_event rt event st = Some (st', out) \<Longrightarrow> silent_type (dot event ''type'') \<Longrightarrow> out = []"
  by (auto simp: handle_event_def Let_def silent_type_def split: option.splits if_splits)

lemma handle_event_at_most_one:
  "handle_event rt event st = Some (st', out) \<Longrightarrow> length out \<le> 1"
  by (auto simp: handle_event_def Let_def split: option.splits if_splits)

lemma process_line_finish_count:
  "length (filter is_finish (snd (process_line rt line st))) =
     (if frame_type rt line = Some (JStr ''message_delta'') then 1 else 0)"
proof (cases "frame_of rt line")
  case None
  then show ?thesis by (simp add: process_line_frame frame_type_def)
next
  case (Some event)
  show ?thesis
  proof (cases "handle_event rt event st")
    case None
    then have "dot event ''type'' \<noteq> Some (JStr ''message_delta'')"
      using handle_event_message_delta [of event rt st] by auto
    then show ?thesis using None Some by (simp add: process_line_frame frame_type_def)
  next
    case (Some r)
    then show ?thesis
      using handle_event_finish_count [of rt event st "fst r" "snd r"] \<open>frame_of rt line = Some event\<close>
      by (simp add: process_line_frame frame_type_def)
  qed
qed

lemma process_lines_finish_count:
  "length (filter is_finish (snd (process_lines rt lines st))) =
     length (filter (\<lambda>l. frame_type rt l = Some (JStr ''message_delta'')) lines)"
proof (induction lines arbitrary: st)
  case Nil
  show ?case by simp
next
  case (Cons l ls)
  show ?case
    unfolding process_lines_Cons_snd
    by (simp add: process_line_finish_count Cons del: process_lines.simps)
qed

lemma process_line_silent:
  "silent_type (frame_type rt line) \<Longrightarrow> snd (process_line rt line st) = []"
  using handle_event_silent [of rt _ st]
  by (auto simp: process_line_frame frame_type_def split: option.splits)

lemma process_lines_silent:
  "list_all (\<lambda>l. silent_type (frame_type rt l)) lines \<Longrightarrow> snd (process_lines rt lines st) = []"
proof (induction lines arbitrary: st)
  case Nil
  show ?case by simp
next
  case (Cons l ls)
  then show ?case
    unfolding process_lines_Cons_snd
    by (simp add: process_line_silent del: process_lines.simps)
qed

lemma process_line_message_delta:
  "frame_type rt line = Some (JStr ''message_delta'') \<Longrightarrow>
   \<exists>r p c. snd (process_line rt line st) = [Finish r p c]"
  using handle_event_message_delta [of _ rt st]
  by (fastforce simp: process_line_frame frame_type_def split: option.splits)

lemma process_line_at_most_one: "length (snd (process_line rt line st)) \<le> 1"
  using handle_event_at_most_one [of rt _ st]
  by (auto simp: process_line_frame split: option.splits)

lemma line_tool_use_start:
  "frame_of rt line = Some event \<Longrightarrow> tool_use_start event tool_id tool_name \<Longrightarrow>
   process_line rt line st =
     (st\<lparr>currentToolCallId := tool_id, currentToolCallName := tool_name,
         currentToolCallArgs := []\<rparr>, [])"
  by (simp add: process_line_frame tool_use_start_def handle_event_def)

lemma line_input_json_delta:
  "frame_of rt line = Some event \<Longrightarrow> input_json_delta event fragment \<Longrightarrow>
   process_line rt line st =
     (st\<lparr>currentToolCallArgs := currentToolCallArgs st @ fragment\<rparr>, [])"
  by (simp add: process_line_frame input_json_delta_def handle_event_def)

lemma line_text_delta:
  "frame_of rt line = Some event \<Longrightarrow> text_delta event text \<Longrightarrow>
   process_line rt line st = (st, [TextDelta text])"
  by (simp add: process_line_frame text_delta_def handle_event_def)

lemma line_content_block_stop:
  "frame_of rt line = Some event \<Longrightarrow> content_block_stop event \<Longrightarrow>
   process_line rt line st =
     (if truthy rt (currentToolCallId st)
      then (st\<lparr>currentToolCallId := JStr [], currentToolCallName := JStr [],
               currentToolCallArgs := []\<rparr>,
            [ToolCall (currentToolCallId st) (currentToolCallName st) (currentToolCallArgs st)])
      else (st, []))"
  by (simp add: process_line_frame content_block_stop_def handle_event_def)

lemma line_message_start:
  "frame_of rt line = Some event \<Longrightarrow> message_start event tokens \<Longrightarrow>
   process_line rt line st = (st\<lparr>inputTokens := JNum tokens\<rparr>, [])"
  by (simp add: process_line_frame message_start_def handle_event_def coalesce_def nullish_def)

lemma line_message_delta_end_turn:
  "frame_of rt line = Some event \<Longrightarrow> message_delta event ''end_turn'' tokens \<Longrightarrow>
   process_line rt line st =
     (st\<lparr>outputTokens := JNum tokens\<rparr>, [Finish Stop (inputTokens st) (JNum tokens)])"
  by (simp add: process_line_frame message_delta_def handle_event_def coalesce_def nullish_def
      Let_def)

subsection \<open>The claims about the decoder\<close>

text \<open>
  C2, as the specification has it, fails: every \<open>message_delta\<close> frame enqueues a
  \<open>finish\<close> part, and the frames after it are decoded as before. A stream with a
  \<open>message_delta\<close> frame, a text frame and a second \<open>message_delta\<close> frame gives two
  \<open>finish\<close> parts with a \<open>text-delta\<close> part between them.
\<close>

theorem C2_counterexample:
  "createStreamTransformer sample_runtime
      [line_message_delta @ nl @ line_text_He @ nl @ line_message_delta @ nl]
     = [Finish Stop (JNum 0) (JNum 3), TextDelta (JStr ''He''), Finish Stop (JNum 0) (JNum 3)]
   \<and> \<not> length (filter is_finish (createStreamTransformer sample_runtime
          [line_message_delta @ nl @ line_text_He @ nl @ line_message_delta @ nl])) \<le> 1"
  by code_simp

text \<open>
  C2, amended. For every stream the decoder enqueues exactly one \<open>finish\<close> part for each
  \<open>message_delta\<close> frame among its lines, so at most one when the stream has at most one
  such frame; and the \<open>finish\<close> part of a \<open>message_delta\<close> frame is the last part of the
  output when no later line is a \<open>content_block_delta\<close>, \<open>content_block_stop\<close> or
  \<open>message_delta\<close> frame.
\<close>

theorem C2_one_finish_per_message_delta:
  "length (filter is_finish (createStreamTransformer rt body))
     = length (filter (\<lambda>l. frame_type rt l = Some (JStr ''message_delta''))
                 (complete_lines (concat body)))
   \<and> (complete_lines (concat body) = before @ [l] @ rest
        \<and> frame_type rt l = Some (JStr ''message_delta'')
        \<and> list_all (\<lambda>l'. silent_type (frame_type rt l')) rest
      \<longrightarrow> createStreamTransformer rt body \<noteq> []
          \<and> is_finish (last (createStreamTransformer rt body)))"
proof (intro conjI impI)
  show "length (filter is_finish (createStreamTransformer rt body))
     = length (filter (\<lambda>l. frame_type rt l = Some (JStr ''message_delta''))
                 (complete_lines (concat body)))"
    by (simp add: createStreamTransformer_lines process_lines_finish_count)
next
  assume a: "complete_lines (concat body) = before @ [l] @ rest
        \<and> frame_type rt l = Some (JStr ''message_delta'')
        \<and> list_all (\<lambda>l'. silent_type (frame_type rt l')) rest"
  define s1 where "s1 = fst (process_lines rt before initial_decoder)"
  define o1 where "o1 = snd (process_lines rt before initial_decoder)"
  obtain r p c where f: "snd (process_line rt l s1) = [Finish r p c]"
    using process_line_message_delta [of rt l s1] a by auto
  have o3: "snd (process_lines rt rest (fst (process_line rt l s1))) = []"
    using process_lines_silent [of rt rest] a by simp
  have "createStreamTransformer rt body
      = snd (process_lines rt (before @ l # rest) initial_decoder)"
    using a by (simp add: createStreamTransformer_lines)
  also have "\<dots> = o1 @ snd (process_lines rt (l # rest) s1)"
    unfolding process_lines_append_snd s1_def o1_def by (rule refl)
  also have "\<dots> = o1 @ [Finish r p c]"
    unfolding process_lines_Cons_snd by (simp add: f o3)
  finally have out: "createStreamTransformer rt body = o1 @ [Finish r p c]" .
  show "createStreamTransformer rt body \<noteq> []" by (simp add: out)
  show "is_finish (last (createStreamTransformer rt body))" by (simp add: out)
qed

text \<open>
  A stream in the server's framing, cut into three chunks: one \<open>message_delta\<close> frame,
  followed by a blank line and the \<open>message_stop\<close> frame.
\<close>

theorem C2_witness:
  "length (filter is_finish (createStreamTransformer sample_runtime
      [line_message_start @ nl @ nl @ line_text_He @ nl @ nl @ line_text_llo @ nl,
       nl @ ''event: message_delta'' @ nl @ line_message_delta @ nl @ nl,
       ''event: message_stop'' @ nl @ line_message_stop @ nl @ nl])) = 1
   \<and> is_finish (last (createStreamTransformer sample_runtime
      [line_message_start @ nl @ nl @ line_text_He @ nl @ nl @ line_text_llo @ nl,
       nl @ ''event: message_delta'' @ nl @ line_message_delta @ nl @ nl,
       ''event: message_stop'' @ nl @ line_message_stop @ nl @ nl]))"
proof -
  let ?body = "[line_message_start @ nl @ nl @ line_text_He @ nl @ nl @ line_text_llo @ nl,
       nl @ ''event: message_delta'' @ nl @ line_message_delta @ nl @ nl,
       ''event: message_stop'' @ nl @ line_message_stop @ nl @ nl]"
  let ?before = "[line_message_start, [], line_text_He, [], line_text_llo, [],
       ''event: message_delta'']"
  let ?rest = "[[], ''event: message_stop'', line_message_stop, []]"
  have h1: "complete_lines (concat ?body) = ?before @ [line_message_delta] @ ?rest"
    by code_simp
  have h2: "frame_type sample_runtime line_message_delta = Some (JStr ''message_delta'')"
    by code_simp
  have h3: "list_all (\<lambda>l'. silent_type (frame_type sample_runtime l')) ?rest"
    by code_simp
  have h4: "length (filter (\<lambda>l. frame_type sample_runtime l = Some (JStr ''message_delta''))
      (?before @ [line_message_delta] @ ?rest)) = 1"
    by code_simp
  show ?thesis
    using C2_one_finish_per_message_delta
      [of sample_runtime ?body ?before line_message_delta ?rest] h1 h2 h3 h4
    by simp
qed

text \<open>
  C4. Let the lines of the stream be four frames: \<open>content_block_start\<close> of a \<open>tool_use\<close>
  block with id \<open>t1\<close> and name \<open>weather\<close>, two \<open>input_json_delta\<close> frames with the
  fragments \<open>{"loc\<close> and \<open>":"NYC"}\<close>, and \<open>content_block_stop\<close>. The decoder enqueues one
  part, the tool call \<open>t1\<close>, \<open>weather\<close> with the arguments \<open>{"loc":"NYC"}\<close>; on a stream
  that has only the first three frames it enqueues nothing.
\<close>

theorem C4_tool_call_accumulation:
  assumes "complete_lines (concat body) = [l1, l2, l3, l4]"
    and "complete_lines (concat before_stop) = [l1, l2, l3]"
    and "frame_of rt l1 = Some e1" and "tool_use_start e1 (JStr ''t1'') (JStr ''weather'')"
    and "frame_of rt l2 = Some e2" and "input_json_delta e2 ''{\"loc''"
    and "frame_of rt l3 = Some e3" and "input_json_delta e3 ''\":\"NYC\"}''"
    and "frame_of rt l4 = Some e4" and "content_block_stop e4"
  shows "createStreamTransformer rt body
           = [ToolCall (JStr ''t1'') (JStr ''weather'') ''{\"loc\":\"NYC\"}'']
     \<and> createStreamTransformer rt before_stop = []"
  by (simp add: createStreamTransformer_lines assms(1,2) initial_decoder_def
      line_tool_use_start [OF assms(3,4)] line_input_json_delta [OF assms(5,6)]
      line_input_json_delta [OF assms(7,8)] line_content_block_stop [OF assms(9,10)])

text \<open>
  The four frames as the server writes them, with a chunk boundary inside the second frame;
  and the stream cut off inside the \<open>content_block_stop\<close> frame.
\<close>

theorem C4_witness:
  "createStreamTransformer sample_runtime
      [line_tool_start @ nl @ take 40 line_json_1,
       drop 40 line_json_1 @ nl @ line_json_2 @ nl,
       line_block_stop @ nl]
     = [ToolCall (JStr ''t1'') (JStr ''weather'') ''{\"loc\":\"NYC\"}'']
   \<and> createStreamTransformer sample_runtime
      [line_tool_start @ nl @ line_json_1 @ nl @ line_json_2 @ nl @ take 30 line_block_stop] = []"
proof -
  let ?body = "[line_tool_start @ nl @ take 40 line_json_1,
       drop 40 line_json_1 @ nl @ line_json_2 @ nl,
       line_block_stop @ nl]"
  let ?before = "[line_tool_start @ nl @ line_json_1 @ nl @ line_json_2 @ nl @ take 30 line_block_stop]"
  let ?e1 = "JObj [(''type'', JStr ''content_block_start''), (''index'', JNum 1),
      (''content_block'', JObj [(''type'', JStr ''tool_use''), (''id'', JStr ''t1''),
         (''name'', JStr ''weather''), (''input'', JObj [])])] :: int jsval"
  let ?e2 = "JObj [(''type'', JStr ''content_block_delta''), (''index'', JNum 1),
      (''delta'', JObj [(''type'', JStr ''input_json_delta''),
         (''partial_json'', JStr ''{\"loc'')])] :: int jsval"
  let ?e3 = "JObj [(''type'', JStr ''content_block_delta''), (''index'', JNum 1),
      (''delta'', JObj [(''type'', JStr ''input_json_delta''),
         (''partial_json'', JStr ''\":\"NYC\"}'')])] :: int jsval"
  let ?e4 = "JObj [(''type'', JStr ''content_block_stop''), (''index'', JNum 1)] :: int jsval"
  have b: "complete_lines (concat ?body) = [line_tool_start, line_json_1, line_json_2, line_block_stop]"
    by code_simp
  have p: "complete_lines (concat ?before) = [line_tool_start, line_json_1, line_json_2]"
    by code_simp
  have f1: "frame_of sample_runtime line_tool_start = Some ?e1" by code_simp
  have f2: "frame_of sample_runtime line_json_1 = Some ?e2" by code_simp
  have f3: "frame_of sample_runtime line_json_2 = Some ?e3" by code_simp
  have f4: "frame_of sample_runtime line_block_stop = Some ?e4" by code_simp
  have t1: "tool_use_start ?e1 (JStr ''t1'') (JStr ''weather'')" by code_simp
  have t2: "input_json_delta ?e2 ''{\"loc''" by code_simp
  have t3: "input_json_delta ?e3 ''\":\"NYC\"}''" by code_simp
  have t4: "content_block_stop ?e4" by code_simp
  show ?thesis
    by (rule C4_tool_call_accumulation [OF b p f1 t1 f2 t2 f3 t3 f4 t4])
qed

text \<open>
  C5. Let the lines of the stream be four frames: \<open>message_start\<close> with a prompt-token
  count, two \<open>text_delta\<close> frames with the texts \<open>He\<close> and \<open>llo\<close>, and \<open>message_delta\<close>
  with the stop reason \<open>end_turn\<close> and a completion-token count. The output is the two
  \<open>text-delta\<close> parts and then \<open>finish\<close> with reason \<open>stop\<close> and the two counts. In
  general the parts come in the order of the frames: for a stream cut at the end of a
  line, the output is the output of the first piece followed by what the decoder, in the
  state the first piece left, enqueues for the second; and one line enqueues at most one
  part.
\<close>

theorem C5_emission_order:
  "(complete_lines (concat body) = [l1, l2, l3, l4]
      \<and> frame_of rt l1 = Some e1 \<and> message_start e1 prompt_tokens
      \<and> frame_of rt l2 = Some e2 \<and> text_delta e2 (JStr ''He'')
      \<and> frame_of rt l3 = Some e3 \<and> text_delta e3 (JStr ''llo'')
      \<and> frame_of rt l4 = Some e4 \<and> message_delta e4 ''end_turn'' completion_tokens
    \<longrightarrow> createStreamTransformer rt body
          = [TextDelta (JStr ''He''), TextDelta (JStr ''llo''),
             Finish Stop (JNum prompt_tokens) (JNum completion_tokens)])
   \<and> (concat stream = x @ y \<and> (x = [] \<or> last x = CHR 0x0A)
    \<longrightarrow> createStreamTransformer rt stream
          = createStreamTransformer rt [x]
            @ snd (read_loop rt [y] (fst (read_loop rt [x] initial_decoder))))
   \<and> length (snd (process_line rt line st)) \<le> 1"
proof (intro conjI impI)
  assume a: "complete_lines (concat body) = [l1, l2, l3, l4]
      \<and> frame_of rt l1 = Some e1 \<and> message_start e1 prompt_tokens
      \<and> frame_of rt l2 = Some e2 \<and> text_delta e2 (JStr ''He'')
      \<and> frame_of rt l3 = Some e3 \<and> text_delta e3 (JStr ''llo'')
      \<and> frame_of rt l4 = Some e4 \<and> message_delta e4 ''end_turn'' completion_tokens"
  then show "createStreamTransformer rt body
          = [TextDelta (JStr ''He''), TextDelta (JStr ''llo''),
             Finish Stop (JNum prompt_tokens) (JNum completion_tokens)]"
    by (simp add: createStreamTransformer_lines initial_decoder_def
        line_message_start [of rt l1 e1 prompt_tokens]
        line_text_delta [of rt l2 e2 "JStr ''He''"]
        line_text_delta [of rt l3 e3 "JStr ''llo''"]
        line_message_delta_end_turn [of rt l4 e4 completion_tokens])
next
  assume a: "concat stream = x @ y \<and> (x = [] \<or> last x = CHR 0x0A)"
  then have e: "last (split_newline x) = []" by (simp add: split_newline_ends)
  have s: "split_newline (concat stream) = complete_lines x @ split_newline y"
    using split_newline_append [of x y] a e by (simp add: complete_lines_def)
  have l: "complete_lines (concat stream) = complete_lines x @ complete_lines y"
    by (simp add: complete_lines_def s butlast_append split_newline_nonempty)
  define sx where "sx = fst (process_lines rt (complete_lines x) initial_decoder)"
  have rx: "fst (read_loop rt [x] initial_decoder) = sx\<lparr>buffer := []\<rparr>"
    using read_loop_lines [of initial_decoder rt "[x]"] e
    by (simp add: initial_decoder_def sx_def case_prod_beta)
  have ry: "snd (read_loop rt [y] (sx\<lparr>buffer := []\<rparr>))
      = snd (process_lines rt (complete_lines y) sx)"
    using read_loop_lines [of "sx\<lparr>buffer := []\<rparr>" rt "[y]"]
    by (simp add: process_lines_buffer case_prod_beta)
  show "createStreamTransformer rt stream
          = createStreamTransformer rt [x]
            @ snd (read_loop rt [y] (fst (read_loop rt [x] initial_decoder)))"
    unfolding rx ry
    by (simp add: createStreamTransformer_lines l process_lines_append_snd sx_def)
next
  show "length (snd (process_line rt line st)) \<le> 1"
    by (rule process_line_at_most_one)
qed

theorem C5_witness:
  "createStreamTransformer sample_runtime
      [line_message_start @ nl @ take 50 line_text_He,
       drop 50 line_text_He @ nl @ line_text_llo @ nl @ line_message_delta @ nl]
     = [TextDelta (JStr ''He''), TextDelta (JStr ''llo''), Finish Stop (JNum 10) (JNum 3)]
   \<and> createStreamTransformer sample_runtime
        [line_message_start @ nl @ line_text_He @ nl @ line_text_llo @ nl @ line_message_delta @ nl]
     = createStreamTransformer sample_runtime [line_message_start @ nl @ line_text_He @ nl]
       @ [TextDelta (JStr ''llo''), Finish Stop (JNum 10) (JNum 3)]"
proof -
  let ?body = "[line_message_start @ nl @ take 50 line_text_He,
       drop 50 line_text_He @ nl @ line_text_llo @ nl @ line_message_delta @ nl]"
  let ?x = "line_message_start @ nl @ line_text_He @ nl"
  let ?y = "line_text_llo @ nl @ line_message_delta @ nl"
  let ?e1 = "JObj [(''type'', JStr ''message_start''),
      (''message'', JObj [(''role'', JStr ''assistant''),
         (''usage'', JObj [(''input_tokens'', JNum 10), (''output_tokens'', JNum 1)])])] :: int jsval"
  let ?e2 = "JObj [(''type'', JStr ''content_block_delta''), (''index'', JNum 0),
      (''delta'', JObj [(''type'', JStr ''text_delta''), (''text'', JStr ''He'')])] :: int jsval"
  let ?e3 = "JObj [(''type'', JStr ''content_block_delta''), (''index'', JNum 0),
      (''delta'', JObj [(''type'', JStr ''text_delta''), (''text'', JStr ''llo'')])] :: int jsval"
  let ?e4 = "JObj [(''type'', JStr ''message_delta''),
      (''delta'', JObj [(''stop_reason'', JStr ''end_turn''), (''stop_sequence'', JNull)]),
      (''usage'', JObj [(''output_tokens'', JNum 3)])] :: int jsval"
  have b: "complete_lines (concat ?body)
      = [line_message_start, line_text_He, line_text_llo, line_message_delta]"
    by code_simp
  have f1: "frame_of sample_runtime line_message_start = Some ?e1" by code_simp
  have f2: "frame_of sample_runtime line_text_He = Some ?e2" by code_simp
  have f3: "frame_of sample_runtime line_text_llo = Some ?e3" by code_simp
  have f4: "frame_of sample_runtime line_message_delta = Some ?e4" by code_simp
  have t1: "message_start ?e1 10" by code_simp
  have t2: "text_delta ?e2 (JStr ''He'')" by code_simp
  have t3: "text_delta ?e3 (JStr ''llo'')" by code_simp
  have t4: "message_delta ?e4 ''end_turn'' 3" by code_simp
  have c: "concat [?x @ ?y] = ?x @ ?y" by simp
  have e: "?x = [] \<or> last ?x = CHR 0x0A" by (simp add: nl_def)
  have r: "snd (read_loop sample_runtime [?y]
        (fst (read_loop sample_runtime [?x] initial_decoder)))
      = [TextDelta (JStr ''llo''), Finish Stop (JNum 10) (JNum 3)]"
    by code_simp
  note inst = C5_emission_order
    [of ?body line_message_start line_text_He line_text_llo line_message_delta
        sample_runtime ?e1 10 ?e2 ?e3 ?e4 3 "[?x @ ?y]" ?x ?y]
  have first: "createStreamTransformer sample_runtime ?body
      = [TextDelta (JStr ''He''), TextDelta (JStr ''llo''), Finish Stop (JNum 10) (JNum 3)]"
    using inst b f1 f2 f3 f4 t1 t2 t3 t4 by blast
  have second: "createStreamTransformer sample_runtime [?x @ ?y]
      = createStreamTransformer sample_runtime [?x]
        @ snd (read_loop sample_runtime [?y]
            (fst (read_loop sample_runtime [?x] initial_decoder)))"
    using inst c e by blast
  show ?thesis using first second r by simp
qed

text \<open>
  C7. Take a stream and, at the end of one of its lines, insert a line \<open>data: \<close> followed by
  a payload that \<open>JSON.parse\<close> rejects. Whatever the chunking of the two streams, the decoder
  enqueues the same parts for both and ends in the same state.
\<close>

theorem C7_malformed_line_skipped:
  assumes "JSON_parse rt payload = None"
    and "CHR 0x0A \<notin> set payload"
    and "a = [] \<or> last a = CHR 0x0A"
    and "concat body = a @ b"
    and "concat body' = a @ ''data: '' @ payload @ [CHR 0x0A] @ b"
  shows "createStreamTransformer rt body' = createStreamTransformer rt body
     \<and> read_loop rt body' initial_decoder = read_loop rt body initial_decoder"
proof -
  define l where "l = ''data: '' @ payload"
  have e: "last (split_newline a) = []" by (rule split_newline_ends [OF assms(3)])
  have n: "CHR 0x0A \<notin> set l" using assms(2) by (simp add: l_def)
  have skip: "process_line rt l st = (st, [])" for st
    unfolding l_def by (rule process_line_unparsed [OF assms(1)])
  have c': "concat body' = a @ l @ CHR 0x0A # b"
    using assms(5) by (simp add: l_def)
  have s': "split_newline (concat body') = complete_lines a @ l # split_newline b"
    using split_newline_append [of a "l @ CHR 0x0A # b"] split_newline_line [OF n, of b] c' e
    by (simp add: complete_lines_def)
  have s: "split_newline (concat body) = complete_lines a @ split_newline b"
    using split_newline_append [of a b] assms(4) e by (simp add: complete_lines_def)
  have p: "process_lines rt (complete_lines (concat body')) st
      = process_lines rt (complete_lines (concat body)) st" for st
    by (simp add: complete_lines_def s s' butlast_append split_newline_nonempty
        process_lines_append skip split: prod.splits)
  have la: "last (split_newline (concat body')) = last (split_newline (concat body))"
    by (simp add: s s' split_newline_nonempty)
  have "read_loop rt body' initial_decoder = read_loop rt body initial_decoder"
    using read_loop_lines [of initial_decoder rt body] read_loop_lines [of initial_decoder rt body']
    by (simp add: initial_decoder_def p la)
  then show ?thesis by (simp add: createStreamTransformer_def)
qed

theorem C7_witness:
  "JSON_parse sample_runtime ''not-json'' = None
   \<and> createStreamTransformer sample_runtime
        [line_text_He @ nl, ''data: not-json'' @ nl, line_text_llo @ nl]
     = createStreamTransformer sample_runtime [line_text_He @ nl @ line_text_llo @ nl]
   \<and> createStreamTransformer sample_runtime [line_text_He @ nl @ line_text_llo @ nl]
     = [TextDelta (JStr ''He''), TextDelta (JStr ''llo'')]"
proof -
  have h1: "JSON_parse sample_runtime ''not-json'' = None" by code_simp
  have h2: "CHR 0x0A \<notin> set ''not-json''" by simp
  have h3: "line_text_He @ nl = [] \<or> last (line_text_He @ nl) = CHR 0x0A"
    by (simp add: nl_def)
  have h4: "concat [line_text_He @ nl @ line_text_llo @ nl]
      = (line_text_He @ nl) @ (line_text_llo @ nl)" by simp
  have h5: "concat [line_text_He @ nl, ''data: not-json'' @ nl, line_text_llo @ nl]
      = (line_text_He @ nl) @ ''data: '' @ ''not-json'' @ [CHR 0x0A] @ (line_text_llo @ nl)"
    by (simp add: nl_def)
  have out: "createStreamTransformer sample_runtime [line_text_He @ nl @ line_text_llo @ nl]
     = [TextDelta (JStr ''He''), TextDelta (JStr ''llo'')]"
    by code_simp
  show ?thesis
    using C7_malformed_line_skipped [OF h1 h2 h3 h4 h5] h1 out by simp
qed

text \<open>
  C10. Let the text of the stream end, after its last newline, in a fragment (so the
  fragment has no newline, and what precedes it is empty or ends in a newline). The parts
  enqueued are those of the lines before the fragment, the same as for the stream without
  the fragment; the fragment is still in \<open>buffer\<close> when the loop ends, and nothing is
  enqueued for it.
\<close>

theorem C10_trailing_fragment_discarded:
  assumes "concat body = pre @ frag"
    and "CHR 0x0A \<notin> set frag"
    and "pre = [] \<or> last pre = CHR 0x0A"
  shows "createStreamTransformer rt body = createStreamTransformer rt [pre]
     \<and> createStreamTransformer rt body
         = snd (process_lines rt (complete_lines pre) initial_decoder)
     \<and> buffer (fst (read_loop rt body initial_decoder)) = frag"
proof -
  have l: "complete_lines (concat body) = complete_lines pre"
    using complete_lines_fragment [OF assms(3,2)] assms(1)
    by (simp add: complete_lines_def)
  have b: "last (split_newline (concat body)) = frag"
    using complete_lines_fragment [OF assms(3,2)] assms(1) by simp
  have "buffer (fst (read_loop rt body initial_decoder)) = frag"
    using read_loop_lines [of initial_decoder rt body] b
    by (simp add: initial_decoder_def split: prod.splits)
  then show ?thesis
    by (simp add: createStreamTransformer_lines l)
qed

text \<open>
  A stream whose last frame, a \<open>message_delta\<close>, lacks its newline: no \<open>finish\<close> part is
  enqueued, while the same frame with the newline gives one.
\<close>

theorem C10_witness:
  "createStreamTransformer sample_runtime
      [line_text_He @ nl @ take 20 line_message_delta, drop 20 line_message_delta]
     = [TextDelta (JStr ''He'')]
   \<and> buffer (fst (read_loop sample_runtime
        [line_text_He @ nl @ take 20 line_message_delta, drop 20 line_message_delta]
        initial_decoder)) = line_message_delta
   \<and> createStreamTransformer sample_runtime [line_text_He @ nl @ line_message_delta @ nl]
     = [TextDelta (JStr ''He''), Finish Stop (JNum 0) (JNum 3)]"
proof -
  let ?body = "[line_text_He @ nl @ take 20 line_message_delta, drop 20 line_message_delta]"
  have h1: "concat ?body = (line_text_He @ nl) @ line_message_delta" by simp
  have h2: "CHR 0x0A \<notin> set line_message_delta" by code_simp
  have h3: "line_text_He @ nl = [] \<or> last (line_text_He @ nl) = CHR 0x0A"
    by (simp add: nl_def)
  have o1: "createStreamTransformer sample_runtime [line_text_He @ nl] = [TextDelta (JStr ''He'')]"
    by code_simp
  have o2: "createStreamTransformer sample_runtime [line_text_He @ nl @ line_message_delta @ nl]
     = [TextDelta (JStr ''He''), Finish Stop (JNum 0) (JNum 3)]"
    by code_simp
  show ?thesis
    using C10_trailing_fragment_discarded [OF h1 h2 h3, of sample_runtime] o1 o2 by simp
qed

end
